theory Spec2Isabelle
  imports Complex_Main
begin

section \<open>Values the script works with\<close>

text \<open>
  \<^verbatim>\<open>gen-ads.py\<close> is a straight-line script over the Pillow imaging library and the
  Python standard library. Neither library is part of the repository, so the embedding
  fixes an interface for them and keeps the script's own code as it is written:

  \<^item> a canvas is the record of what \<^verbatim>\<open>Image.new\<close> received together with the drawing
    calls made on it, in order. Rasterisation is the library's business; two canvases
    with the same creation arguments and the same drawing calls hold the same pixels;
  \<^item> Python strings are written as the UTF-8 bytes of the source file;
  \<^item> the text measurer \<^verbatim>\<open>ImageDraw.textbbox\<close> is a parameter of every definition
    that measures text (it depends on the library and on the font data);
  \<^item> everything that varies from one run to the next is a field of \<open>world\<close>:
    the file system, whether the system font can be loaded, and standard output.
\<close>

type_synonym colour = "int \<times> int \<times> int"

type_synonym bbox = "int \<times> int \<times> int \<times> int"

datatype exn =
    OSError | ValueError | FileExistsError | FileNotFoundError
  | NotADirectoryError | IsADirectoryError | PermissionError

text \<open>A font object: a face of a font file at a size, or the library's built-in font.\<close>

datatype font_obj = FreeTypeFont string int nat | DefaultFont

text \<open>
  The two drawing calls the script makes: \<^verbatim>\<open>draw.line(points, fill, width)\<close> and
  \<^verbatim>\<open>draw.text(xy, text, font, fill)\<close>. The horizontal text position is the result of a
  Python true division by two. Halving is exact in binary floating point, so for the
  pixel coordinates at hand the float is the rational number written here.
\<close>

datatype draw_op =
    Line "(int \<times> int) list" colour int
  | Text "rat \<times> int" string font_obj colour

record image =
  im_mode :: string
  im_size :: "int \<times> int"
  im_fill :: colour
  im_ops :: "draw_op list"

datatype node = Dir | ImageFile string image | OtherFile

text \<open>
  \<open>nodes\<close> is the file system's namespace; \<open>locked p\<close> says that the operating
  system refuses to create or write \<open>p\<close> (permissions, a read-only or full disk);
  \<open>font_err path sz idx\<close> is the exception \<^verbatim>\<open>ImageFont.truetype\<close> raises for these
  arguments, if any; \<open>stdout\<close> is the text printed so far.
\<close>

record world =
  nodes :: "string \<rightharpoonup> node"
  locked :: "string \<Rightarrow> bool"
  font_err :: "string \<Rightarrow> int \<Rightarrow> nat \<Rightarrow> exn option"
  stdout :: string

text \<open>
  A statement either returns the next world or raises. The script has no handler
  outside \<open>font\<close>, so an exception ends the run; the world it ended in is kept.
\<close>

type_synonym result = "exn \<times> world + world"

definition and_then :: "result \<Rightarrow> (world \<Rightarrow> result) \<Rightarrow> result" where
  "and_then r f = (case r of Inl ew \<Rightarrow> Inl ew | Inr w \<Rightarrow> f w)"

definition completed :: "result \<Rightarrow> bool" where
  "completed r = (case r of Inl ew \<Rightarrow> False | Inr w \<Rightarrow> True)"

definition world_of :: "result \<Rightarrow> world" where
  "world_of r = (case r of Inl ew \<Rightarrow> snd ew | Inr w \<Rightarrow> w)"

section \<open>The library calls\<close>

text \<open>
  \<^verbatim>\<open>os.makedirs(name, exist_ok)\<close>: an existing directory is accepted when
  \<open>exist_ok\<close> is set, anything else that exists is an error, and a missing directory
  is created unless the system refuses. Intermediate directories are not tracked.
\<close>

definition makedirs :: "string \<Rightarrow> bool \<Rightarrow> world \<Rightarrow> result" where
  "makedirs name exist_ok w =
     (case nodes w name of
        Some Dir \<Rightarrow> if exist_ok then Inr w else Inl (FileExistsError, w)
      | Some other \<Rightarrow> Inl (FileExistsError, w)
      | None \<Rightarrow> if locked w name then Inl (PermissionError, w)
                else Inr (w\<lparr>nodes := (nodes w)(name \<mapsto> Dir)\<rparr>))"

text \<open>\<^verbatim>\<open>os.path.join(a, b)\<close> and \<^verbatim>\<open>os.path.dirname(p)\<close> of \<^verbatim>\<open>posixpath\<close>.\<close>

definition path_join :: "string \<Rightarrow> string \<Rightarrow> string" where
  "path_join a b =
     (if b \<noteq> [] \<and> hd b = CHR ''/'' then b
      else if a = [] \<or> last a = CHR ''/'' then a @ b
      else a @ ''/'' @ b)"

definition dirname :: "string \<Rightarrow> string" where
  "dirname p =
     (let head = rev (dropWhile (\<lambda>c. c \<noteq> CHR ''/'') (rev p))
      in if (\<forall>c \<in> set head. c = CHR ''/'') then head
         else rev (dropWhile (\<lambda>c. c = CHR ''/'') (rev head)))"

text \<open>
  \<^verbatim>\<open>img.save(path, format)\<close> opens \<open>path\<close> for writing and stores the encoded image,
  replacing a file that is already there.
\<close>

definition save :: "image \<Rightarrow> string \<Rightarrow> string \<Rightarrow> world \<Rightarrow> result" where
  "save img path fmt w =
     (case nodes w (dirname path) of
        None \<Rightarrow> Inl (FileNotFoundError, w)
      | Some Dir \<Rightarrow>
          if nodes w path = Some Dir then Inl (IsADirectoryError, w)
          else if locked w path then Inl (PermissionError, w)
          else Inr (w\<lparr>nodes := (nodes w)(path \<mapsto> ImageFile fmt img)\<rparr>)
      | Some other \<Rightarrow> Inl (NotADirectoryError, w))"

text \<open>\<^verbatim>\<open>print(s)\<close> writes \<open>s\<close> and a newline.\<close>

definition print :: "string \<Rightarrow> world \<Rightarrow> result" where
  "print s w = Inr (w\<lparr>stdout := stdout w @ s @ [CHR 0x0A]\<rparr>)"

definition truetype :: "world \<Rightarrow> string \<Rightarrow> int \<Rightarrow> nat \<Rightarrow> exn + font_obj" where
  "truetype w path sz idx =
     (case font_err w path sz idx of
        Some e \<Rightarrow> Inl e
      | None \<Rightarrow> Inr (FreeTypeFont path sz idx))"

definition load_default :: font_obj where
  "load_default = DefaultFont"

definition Image_new :: "string \<Rightarrow> int \<times> int \<Rightarrow> colour \<Rightarrow> image" where
  "Image_new md sz col = \<lparr>im_mode = md, im_size = sz, im_fill = col, im_ops = []\<rparr>"

text \<open>
  \<^verbatim>\<open>ImageDraw.Draw(img)\<close> is a handle on \<open>img\<close>: what is drawn through it is drawn on
  the image. The script never uses an image and its handle apart, so both are one value.
\<close>

definition Draw :: "image \<Rightarrow> image" where
  "Draw img = img"

definition draw_line :: "image \<Rightarrow> (int \<times> int) list \<Rightarrow> colour \<Rightarrow> int \<Rightarrow> image" where
  "draw_line draw pts fill wd = draw\<lparr>im_ops := im_ops draw @ [Line pts fill wd]\<rparr>"

definition draw_text :: "image \<Rightarrow> rat \<times> int \<Rightarrow> string \<Rightarrow> font_obj \<Rightarrow> colour \<Rightarrow> image" where
  "draw_text draw xy txt fnt fill = draw\<lparr>im_ops := im_ops draw @ [Text xy txt fnt fill]\<rparr>"

section \<open>The script\<close>

definition OUT :: string where
  "OUT = ''/Users/frankgranato/Desktop/claude projects/PoolCue-v2/public/ads''"

definition BG :: colour where "BG = (10, 10, 10)"
definition GOLD :: colour where "GOLD = (245, 197, 24)"
definition DIM :: colour where "DIM = (100, 100, 100)"
definition WHITE :: colour where "WHITE = (220, 220, 220)"
definition DARK_LINE :: colour where "DARK_LINE = (30, 30, 30)"

text \<open>The bare \<^verbatim>\<open>except:\<close> catches whatever \<^verbatim>\<open>truetype\<close> raises.\<close>

definition font :: "world \<Rightarrow> int \<Rightarrow> bool \<Rightarrow> font_obj" where
  "font w sz bold =
     (let idx = (if bold then 1 else 0)
      in case truetype w ''/System/Library/Fonts/Helvetica.ttc'' sz idx of
           Inr f \<Rightarrow> f
         | Inl e \<Rightarrow> load_default)"

definition center_text ::
  "(int \<times> int \<Rightarrow> string \<Rightarrow> font_obj \<Rightarrow> bbox) \<Rightarrow>
   image \<Rightarrow> int \<Rightarrow> string \<Rightarrow> font_obj \<Rightarrow> colour \<Rightarrow> int \<Rightarrow> image" where
  "center_text textbbox draw y txt fnt fill img_w =
     (let bbox = textbbox (0, 0) txt fnt;
          tw = fst (snd (snd bbox)) - fst bbox
      in draw_text draw (of_int (img_w - tw) / 2, y) txt fnt fill)"

text \<open>The margin defaults to 80; every call of the script passes it.\<close>

definition draw_gold_line :: "image \<Rightarrow> int \<Rightarrow> int \<Rightarrow> int \<Rightarrow> image" where
  "draw_gold_line draw y w margin =
     draw_line draw [(margin, y), (w - margin, y)] DARK_LINE 1"

definition draw_gold_line_default :: "image \<Rightarrow> int \<Rightarrow> int \<Rightarrow> image" where
  "draw_gold_line_default draw y w = draw_gold_line draw y w 80"

text \<open>Block 1, the game banner, up to the point where the image is saved.\<close>

definition banner_canvas ::
  "(int \<times> int \<Rightarrow> string \<Rightarrow> font_obj \<Rightarrow> bbox) \<Rightarrow> world \<Rightarrow> image" where
  "banner_canvas textbbox w =
     (let img = Image_new ''RGB'' (1080, 90) BG;
          d = Draw img;
          d = draw_gold_line d 1 1080 40;
          f_main = font w 22 True;
          f_dim = font w 18 False;
          line = ''YOUR AD HERE'';
          sub = ''Advertise on our boards  '' @ [CHR 0xC2, CHR 0xB7] @ ''  poolcue.io'';
          d = center_text textbbox d 20 line f_main GOLD 1080;
          d = center_text textbbox d 50 sub f_dim DIM 1080
      in d)"

definition banner_block ::
  "(int \<times> int \<Rightarrow> string \<Rightarrow> font_obj \<Rightarrow> bbox) \<Rightarrow> world \<Rightarrow> result" where
  "banner_block textbbox w =
     and_then (save (banner_canvas textbbox w) (path_join OUT ''ad-banner-1080x90.png'') ''PNG'' w)
       (print ([CHR 0xE2, CHR 0x9C, CHR 0x85] @ '' Banner 1080x90''))"

text \<open>Block 2, the idle top/bottom image.\<close>

definition idle_canvas ::
  "(int \<times> int \<Rightarrow> string \<Rightarrow> font_obj \<Rightarrow> bbox) \<Rightarrow> world \<Rightarrow> image" where
  "idle_canvas textbbox w =
     (let img = Image_new ''RGB'' (1080, 240) BG;
          d = Draw img;
          d = draw_gold_line d 1 1080 100;
          d = draw_gold_line d 238 1080 100;
          f_head = font w 36 True;
          f_sub = font w 22 False;
          f_contact = font w 20 False;
          d = center_text textbbox d 45 ''YOUR AD HERE'' f_head GOLD 1080;
          d = center_text textbbox d 100 ''Interested in advertising on our boards?'' f_sub WHITE 1080;
          d = center_text textbbox d 145 ''Reach out at  poolcue.io'' f_contact DIM 1080;
          f_tiny = font w 13 False;
          d = center_text textbbox d 205 ''POOL CUE'' f_tiny (40, 40, 40) 1080
      in d)"

definition idle_block ::
  "(int \<times> int \<Rightarrow> string \<Rightarrow> font_obj \<Rightarrow> bbox) \<Rightarrow> world \<Rightarrow> result" where
  "idle_block textbbox w =
     and_then (save (idle_canvas textbbox w) (path_join OUT ''ad-idle-1080x240.png'') ''PNG'' w)
       (print ([CHR 0xE2, CHR 0x9C, CHR 0x85] @ '' Idle 1080x240''))"

text \<open>Block 3, the side image.\<close>

definition side_canvas ::
  "(int \<times> int \<Rightarrow> string \<Rightarrow> font_obj \<Rightarrow> bbox) \<Rightarrow> world \<Rightarrow> image" where
  "side_canvas textbbox w =
     (let img = Image_new ''RGB'' (1080, 120) BG;
          d = Draw img;
          d = draw_gold_line d 1 1080 60;
          d = draw_gold_line d 118 1080 60;
          f_side = font w 26 True;
          f_side_sub = font w 18 False;
          d = center_text textbbox d 25 ''YOUR AD HERE'' f_side GOLD 1080;
          d = center_text textbbox d 65
                (''Advertise on our boards  '' @ [CHR 0xC2, CHR 0xB7] @ ''  poolcue.io'')
                f_side_sub DIM 1080
      in d)"

definition side_block ::
  "(int \<times> int \<Rightarrow> string \<Rightarrow> font_obj \<Rightarrow> bbox) \<Rightarrow> world \<Rightarrow> result" where
  "side_block textbbox w =
     and_then (save (side_canvas textbbox w) (path_join OUT ''ad-side-1080x120.png'') ''PNG'' w)
       (print ([CHR 0xE2, CHR 0x9C, CHR 0x85] @ '' Side 1080x120''))"

text \<open>The whole script, top to bottom.\<close>

definition main ::
  "(int \<times> int \<Rightarrow> string \<Rightarrow> font_obj \<Rightarrow> bbox) \<Rightarrow> world \<Rightarrow> result" where
  "main textbbox w0 =
     and_then (makedirs OUT True w0) (\<lambda>w1.
     and_then (banner_block textbbox w1) (\<lambda>w2.
     and_then (idle_block textbbox w2) (\<lambda>w3.
     and_then (side_block textbbox w3)
       (print ([CHR 0x0A] @ ''All ads saved to '' @ OUT)))))"

section \<open>Notions the properties are stated with\<close>

abbreviation banner_path :: string where
  "banner_path \<equiv> path_join OUT ''ad-banner-1080x90.png''"

abbreviation idle_path :: string where
  "idle_path \<equiv> path_join OUT ''ad-idle-1080x240.png''"

abbreviation side_path :: string where
  "side_path \<equiv> path_join OUT ''ad-side-1080x120.png''"

text \<open>
  The file system lets the script through: the output directory is there or may be
  created, and none of the three targets is a directory or refused by the system.
\<close>

definition out_ready :: "world \<Rightarrow> bool" where
  "out_ready w =
     ((nodes w OUT = Some Dir \<or> (nodes w OUT = None \<and> \<not> locked w OUT)) \<and>
      (\<forall>p \<in> {banner_path, idle_path, side_path}. nodes w p \<noteq> Some Dir \<and> \<not> locked w p))"

text \<open>Everything a completed run writes to standard output.\<close>

definition report :: string where
  "report =
     [CHR 0xE2, CHR 0x9C, CHR 0x85] @ '' Banner 1080x90'' @ [CHR 0x0A] @
     [CHR 0xE2, CHR 0x9C, CHR 0x85] @ '' Idle 1080x240'' @ [CHR 0x0A] @
     [CHR 0xE2, CHR 0x9C, CHR 0x85] @ '' Side 1080x120'' @ [CHR 0x0A] @
     [CHR 0x0A] @ ''All ads saved to '' @ OUT @ [CHR 0x0A]"

text \<open>The lines of a text: the pieces between newlines, as a terminal shows them.\<close>

primrec split_lines :: "string \<Rightarrow> string \<Rightarrow> string list" where
  "split_lines cur [] = (if cur = [] then [] else [cur])"
| "split_lines cur (c # cs) =
     (if c = CHR 0x0A then cur # split_lines [] cs else split_lines (cur @ [c]) cs)"

definition text_ops :: "image \<Rightarrow> draw_op list" where
  "text_ops img =
     filter (\<lambda>op. case op of Text xy t f c \<Rightarrow> True | Line ps c wd \<Rightarrow> False) (im_ops img)"

definition rule_ops :: "image \<Rightarrow> draw_op list" where
  "rule_ops img =
     filter (\<lambda>op. case op of Text xy t f c \<Rightarrow> False | Line ps c wd \<Rightarrow> True) (im_ops img)"


text \<open>A text call is centred in an image when it starts at half the image's spare width.\<close>

definition centred_in ::
  "(int \<times> int \<Rightarrow> string \<Rightarrow> font_obj \<Rightarrow> bbox) \<Rightarrow> image \<Rightarrow> draw_op \<Rightarrow> bool" where
  "centred_in textbbox img op =
     (case op of
        Text xy t f c \<Rightarrow>
          fst xy = of_int (fst (im_size img)
                     - (fst (snd (snd (textbbox (0, 0) t f))) - fst (textbbox (0, 0) t f))) / 2
      | Line ps c wd \<Rightarrow> True)"

subsection \<open>Sample environments\<close>

text \<open>A measurer that gives every glyph half its height as width; the built-in font is 11 high.\<close>

definition fixed_width_bbox :: "int \<times> int \<Rightarrow> string \<Rightarrow> font_obj \<Rightarrow> bbox" where
  "fixed_width_bbox xy txt fnt =
     (let h = (case fnt of FreeTypeFont p sz i \<Rightarrow> sz | DefaultFont \<Rightarrow> 11)
      in (fst xy, snd xy, fst xy + (h * int (length txt)) div 2, snd xy + h))"

text \<open>An empty file system on a machine without the font file.\<close>

definition bare_world :: world where
  "bare_world =
     \<lparr>nodes = Map.empty, locked = (\<lambda>p. False),
      font_err = (\<lambda>p sz idx. Some OSError), stdout = []\<rparr>"

text \<open>The directory is there with a stale file in it; the font file is not a font.\<close>

definition stale_world :: world where
  "stale_world =
     \<lparr>nodes = [OUT \<mapsto> Dir, banner_path \<mapsto> OtherFile], locked = (\<lambda>p. False),
      font_err = (\<lambda>p sz idx. Some ValueError), stdout = []\<rparr>"

text \<open>The directory is there and the font loads.\<close>

definition mac_world :: world where
  "mac_world =
     \<lparr>nodes = [OUT \<mapsto> Dir], locked = (\<lambda>p. False),
      font_err = (\<lambda>p sz idx. None), stdout = []\<rparr>"

text \<open>A second measurer, with wider glyphs.\<close>

definition wide_bbox :: "int \<times> int \<Rightarrow> string \<Rightarrow> font_obj \<Rightarrow> bbox" where
  "wide_bbox xy txt fnt = (fst xy, snd xy, fst xy + 8 * int (length txt), snd xy + 16)"

section \<open>Paths, steps and the whole run\<close>

lemma OUT_shape: "OUT \<noteq> []" "last OUT \<noteq> CHR ''/''"
  by (simp_all add: OUT_def)

lemma path_join_plain:
  "a \<noteq> [] \<Longrightarrow> last a \<noteq> CHR ''/'' \<Longrightarrow> b \<noteq> [] \<Longrightarrow> hd b \<noteq> CHR ''/'' \<Longrightarrow> path_join a b = a @ CHR ''/'' # b"
  by (simp add: path_join_def)

lemma dirname_child:
  assumes "a \<noteq> []" "last a \<noteq> CHR ''/''" "CHR ''/'' \<notin> set n"
  shows "dirname (a @ CHR ''/'' # n) = a"
proof -
  have h: "rev (dropWhile (\<lambda>c. c \<noteq> CHR ''/'') (rev (a @ CHR ''/'' # n))) = a @ ''/''"
    using assms(3) by (auto simp add: dropWhile_append3)
  have ne: "\<not> (\<forall>c \<in> set (a @ ''/''). c = CHR ''/'')"
    using assms(1,2) last_in_set by fastforce
  have "rev (dropWhile (\<lambda>c. c = CHR ''/'') (rev (a @ ''/''))) = a"
    using assms(1,2) by (cases a rule: rev_cases) simp_all
  with h ne show ?thesis by (simp add: dirname_def Let_def)
qed

lemma out_paths:
  "dirname banner_path = OUT" "dirname idle_path = OUT" "dirname side_path = OUT"
  "banner_path \<noteq> OUT" "idle_path \<noteq> OUT" "side_path \<noteq> OUT"
  "OUT \<noteq> banner_path" "OUT \<noteq> idle_path" "OUT \<noteq> side_path"
  "banner_path \<noteq> idle_path" "banner_path \<noteq> side_path" "idle_path \<noteq> side_path"
  "idle_path \<noteq> banner_path" "side_path \<noteq> banner_path" "side_path \<noteq> idle_path"
  by (simp_all add: path_join_plain OUT_shape dirname_child)

lemma font_only_font_err: "font_err w' = font_err w \<Longrightarrow> font w' sz b = font w sz b"
  by (simp add: font_def truetype_def)

lemma canvases_only_font_err:
  assumes "font_err w' = font_err w"
  shows "banner_canvas tb w' = banner_canvas tb w"
    and "idle_canvas tb w' = idle_canvas tb w"
    and "side_canvas tb w' = side_canvas tb w"
  by (simp_all add: banner_canvas_def idle_canvas_def side_canvas_def font_only_font_err [OF assms])

lemma makedirs_OUT:
  "nodes w OUT = Some Dir \<Longrightarrow> makedirs OUT True w = Inr w"
  "nodes w OUT = None \<Longrightarrow> \<not> locked w OUT \<Longrightarrow>
     makedirs OUT True w = Inr (w\<lparr>nodes := (nodes w)(OUT \<mapsto> Dir)\<rparr>)"
  by (simp_all add: makedirs_def)

lemma save_ok:
  "nodes w (dirname p) = Some Dir \<Longrightarrow> nodes w p \<noteq> Some Dir \<Longrightarrow> \<not> locked w p \<Longrightarrow>
     save img p fmt w = Inr (w\<lparr>nodes := (nodes w)(p \<mapsto> ImageFile fmt img)\<rparr>)"
  by (simp add: save_def)

lemma and_then_Inr: "and_then (Inr w) f = f w"
  by (simp add: and_then_def)

lemma and_then_Inl: "and_then (Inl ew) f = Inl ew"
  by (simp add: and_then_def)

lemma banner_block_ok:
  assumes "nodes w OUT = Some Dir" "nodes w banner_path \<noteq> Some Dir" "\<not> locked w banner_path"
  shows "banner_block tb w =
     Inr (w\<lparr>nodes := (nodes w)(banner_path \<mapsto> ImageFile ''PNG'' (banner_canvas tb w)),
            stdout := stdout w @ [CHR 0xE2, CHR 0x9C, CHR 0x85] @ '' Banner 1080x90'' @ [CHR 0x0A]\<rparr>)"
  using assms
  by (simp add: banner_block_def save_ok out_paths(1) and_then_Inr print_def)

lemma idle_block_ok:
  assumes "nodes w OUT = Some Dir" "nodes w idle_path \<noteq> Some Dir" "\<not> locked w idle_path"
  shows "idle_block tb w =
     Inr (w\<lparr>nodes := (nodes w)(idle_path \<mapsto> ImageFile ''PNG'' (idle_canvas tb w)),
            stdout := stdout w @ [CHR 0xE2, CHR 0x9C, CHR 0x85] @ '' Idle 1080x240'' @ [CHR 0x0A]\<rparr>)"
  using assms
  by (simp add: idle_block_def save_ok out_paths(2) and_then_Inr print_def)

lemma side_block_ok:
  assumes "nodes w OUT = Some Dir" "nodes w side_path \<noteq> Some Dir" "\<not> locked w side_path"
  shows "side_block tb w =
     Inr (w\<lparr>nodes := (nodes w)(side_path \<mapsto> ImageFile ''PNG'' (side_canvas tb w)),
            stdout := stdout w @ [CHR 0xE2, CHR 0x9C, CHR 0x85] @ '' Side 1080x120'' @ [CHR 0x0A]\<rparr>)"
  using assms
  by (simp add: side_block_def save_ok out_paths(3) and_then_Inr print_def)

lemma main_ready:
  assumes "out_ready w"
  shows "main tb w =
     Inr (w\<lparr>nodes := (nodes w)(OUT \<mapsto> Dir,
                 banner_path \<mapsto> ImageFile ''PNG'' (banner_canvas tb w),
                 idle_path \<mapsto> ImageFile ''PNG'' (idle_canvas tb w),
                 side_path \<mapsto> ImageFile ''PNG'' (side_canvas tb w)),
            stdout := stdout w @ report\<rparr>)"
proof -
  from assms have d: "nodes w OUT = Some Dir \<or> (nodes w OUT = None \<and> \<not> locked w OUT)"
    and b: "nodes w banner_path \<noteq> Some Dir" "\<not> locked w banner_path"
    and i: "nodes w idle_path \<noteq> Some Dir" "\<not> locked w idle_path"
    and s: "nodes w side_path \<noteq> Some Dir" "\<not> locked w side_path"
    by (simp_all add: out_ready_def)
  define w1 where "w1 = w\<lparr>nodes := (nodes w)(OUT \<mapsto> Dir)\<rparr>"
  define w2 where "w2 = w1\<lparr>nodes := (nodes w1)(banner_path \<mapsto> ImageFile ''PNG'' (banner_canvas tb w1)),
            stdout := stdout w1 @ [CHR 0xE2, CHR 0x9C, CHR 0x85] @ '' Banner 1080x90'' @ [CHR 0x0A]\<rparr>"
  define w3 where "w3 = w2\<lparr>nodes := (nodes w2)(idle_path \<mapsto> ImageFile ''PNG'' (idle_canvas tb w2)),
            stdout := stdout w2 @ [CHR 0xE2, CHR 0x9C, CHR 0x85] @ '' Idle 1080x240'' @ [CHR 0x0A]\<rparr>"
  define w4 where "w4 = w3\<lparr>nodes := (nodes w3)(side_path \<mapsto> ImageFile ''PNG'' (side_canvas tb w3)),
            stdout := stdout w3 @ [CHR 0xE2, CHR 0x9C, CHR 0x85] @ '' Side 1080x120'' @ [CHR 0x0A]\<rparr>"
  have m: "makedirs OUT True w = Inr w1"
  proof (cases "nodes w OUT")
    case None
    with d show ?thesis by (simp add: makedirs_OUT(2) w1_def)
  next
    case (Some a)
    with d have e: "nodes w OUT = Some Dir" by simp
    then have "(nodes w)(OUT \<mapsto> Dir) = nodes w" by (rule fun_upd_idem)
    then have "w1 = w" by (simp add: w1_def)
    with e show ?thesis by (simp add: makedirs_OUT(1))
  qed
  have f1: "font_err w1 = font_err w" by (simp add: w1_def)
  have f2: "font_err w2 = font_err w" by (simp add: w2_def f1)
  have f3: "font_err w3 = font_err w" by (simp add: w3_def f2)
  have b1: "banner_block tb w1 = Inr w2"
    unfolding w2_def using b
    by (intro banner_block_ok) (simp_all add: w1_def out_paths)
  have i2: "idle_block tb w2 = Inr w3"
    unfolding w3_def using i
    by (intro idle_block_ok) (simp_all add: w1_def w2_def out_paths)
  have s3: "side_block tb w3 = Inr w4"
    unfolding w4_def using s
    by (intro side_block_ok) (simp_all add: w1_def w2_def w3_def out_paths)
  have run: "main tb w = Inr (w4\<lparr>stdout := stdout w4 @ [CHR 0x0A] @ ''All ads saved to '' @ OUT @ [CHR 0x0A]\<rparr>)"
    by (simp add: main_def m b1 i2 s3 and_then_Inr print_def)
  have n1: "nodes w1 = (nodes w)(OUT \<mapsto> Dir)" by (simp add: w1_def)
  have n2: "nodes w2 = (nodes w1)(banner_path \<mapsto> ImageFile ''PNG'' (banner_canvas tb w))"
    by (simp add: w2_def canvases_only_font_err(1) [OF f1])
  have n3: "nodes w3 = (nodes w2)(idle_path \<mapsto> ImageFile ''PNG'' (idle_canvas tb w))"
    by (simp add: w3_def canvases_only_font_err(2) [OF f2])
  have n4: "nodes w4 = (nodes w3)(side_path \<mapsto> ImageFile ''PNG'' (side_canvas tb w))"
    by (simp add: w4_def canvases_only_font_err(3) [OF f3])
  have n: "nodes w4 = (nodes w)(OUT \<mapsto> Dir,
                 banner_path \<mapsto> ImageFile ''PNG'' (banner_canvas tb w),
                 idle_path \<mapsto> ImageFile ''PNG'' (idle_canvas tb w),
                 side_path \<mapsto> ImageFile ''PNG'' (side_canvas tb w))"
    by (simp only: n4 n3 n2 n1)
  have o: "stdout w4 @ [CHR 0x0A] @ ''All ads saved to '' @ OUT @ [CHR 0x0A] = stdout w @ report"
    by (simp add: w4_def w3_def w2_def w1_def report_def)
  have r: "locked w4 = locked w" "font_err w4 = font_err w"
    by (simp_all add: w4_def w3_def w2_def w1_def)
  have "w4\<lparr>stdout := stdout w4 @ [CHR 0x0A] @ ''All ads saved to '' @ OUT @ [CHR 0x0A]\<rparr> =
        w\<lparr>nodes := nodes w4, stdout := stdout w @ report\<rparr>"
    using r o by simp
  with run n show ?thesis by simp
qed

lemma completed_and_then:
  "completed (and_then r f) \<Longrightarrow> completed r \<and> completed (f (world_of r))"
  by (cases r) (simp_all add: completed_def and_then_def world_of_def)

lemma completed_makedirs_OUT:
  "completed (makedirs OUT True w) \<Longrightarrow>
     nodes w OUT = Some Dir \<or> (nodes w OUT = None \<and> \<not> locked w OUT)"
  by (simp add: makedirs_def completed_def split: option.splits node.splits if_splits)

lemma completed_save:
  "completed (save img p fmt w) \<Longrightarrow>
     nodes w (dirname p) = Some Dir \<and> nodes w p \<noteq> Some Dir \<and> \<not> locked w p"
  by (simp add: save_def completed_def split: option.splits node.splits if_splits)

lemma save_cases:
  "save img p fmt w = Inr (w\<lparr>nodes := (nodes w)(p \<mapsto> ImageFile fmt img)\<rparr>) \<or>
   (\<exists>e. save img p fmt w = Inl (e, w))"
  by (simp add: save_def split: option.split node.split)

lemma makedirs_world:
  "completed (makedirs OUT True w) \<Longrightarrow>
     makedirs OUT True w = Inr (w\<lparr>nodes := (nodes w)(OUT \<mapsto> Dir)\<rparr>)"
proof -
  assume "completed (makedirs OUT True w)"
  then have d: "nodes w OUT = Some Dir \<or> (nodes w OUT = None \<and> \<not> locked w OUT)"
    by (rule completed_makedirs_OUT)
  show ?thesis
  proof (cases "nodes w OUT")
    case None
    with d show ?thesis by (simp add: makedirs_OUT(2))
  next
    case (Some a)
    with d have e: "nodes w OUT = Some Dir" by simp
    then have "(nodes w)(OUT \<mapsto> Dir) = nodes w" by (rule fun_upd_idem)
    with e show ?thesis by (simp add: makedirs_OUT(1))
  qed
qed

lemma main_completed_ready:
  assumes c: "completed (main tb w)"
  shows "out_ready w"
proof -
  define w1 where "w1 = w\<lparr>nodes := (nodes w)(OUT \<mapsto> Dir)\<rparr>"
  define w2 where "w2 = w1\<lparr>nodes := (nodes w1)(banner_path \<mapsto> ImageFile ''PNG'' (banner_canvas tb w1)),
            stdout := stdout w1 @ [CHR 0xE2, CHR 0x9C, CHR 0x85] @ '' Banner 1080x90'' @ [CHR 0x0A]\<rparr>"
  define w3 where "w3 = w2\<lparr>nodes := (nodes w2)(idle_path \<mapsto> ImageFile ''PNG'' (idle_canvas tb w2)),
            stdout := stdout w2 @ [CHR 0xE2, CHR 0x9C, CHR 0x85] @ '' Idle 1080x240'' @ [CHR 0x0A]\<rparr>"
  from c have c0: "completed (makedirs OUT True w)"
    unfolding main_def by (blast dest: completed_and_then)
  then have d: "nodes w OUT = Some Dir \<or> (nodes w OUT = None \<and> \<not> locked w OUT)"
    by (rule completed_makedirs_OUT)
  have m: "makedirs OUT True w = Inr w1"
    unfolding w1_def using c0 by (rule makedirs_world)
  have dir1: "nodes w1 OUT = Some Dir" by (simp add: w1_def)
  from c m have c1: "completed (banner_block tb w1)"
    unfolding main_def by (auto simp add: and_then_Inr dest: completed_and_then)
  then have "completed (save (banner_canvas tb w1) banner_path ''PNG'' w1)"
    unfolding banner_block_def by (blast dest: completed_and_then)
  then have b1: "nodes w1 banner_path \<noteq> Some Dir" "\<not> locked w1 banner_path"
    by (auto dest: completed_save)
  then have b: "nodes w banner_path \<noteq> Some Dir" "\<not> locked w banner_path"
    by (simp_all add: w1_def out_paths)
  have r1: "banner_block tb w1 = Inr w2"
    unfolding w2_def using dir1 b1 by (rule banner_block_ok)
  have dir2: "nodes w2 OUT = Some Dir" by (simp add: w2_def dir1 out_paths)
  from c m r1 have c2: "completed (idle_block tb w2)"
    unfolding main_def by (auto simp add: and_then_Inr dest: completed_and_then)
  then have "completed (save (idle_canvas tb w2) idle_path ''PNG'' w2)"
    unfolding idle_block_def by (blast dest: completed_and_then)
  then have i2: "nodes w2 idle_path \<noteq> Some Dir" "\<not> locked w2 idle_path"
    by (auto dest: completed_save)
  then have i: "nodes w idle_path \<noteq> Some Dir" "\<not> locked w idle_path"
    by (simp_all add: w2_def w1_def out_paths)
  have r2: "idle_block tb w2 = Inr w3"
    unfolding w3_def using dir2 i2 by (rule idle_block_ok)
  from c m r1 r2 have c3: "completed (side_block tb w3)"
    unfolding main_def by (auto simp add: and_then_Inr dest: completed_and_then)
  then have "completed (save (side_canvas tb w3) side_path ''PNG'' w3)"
    unfolding side_block_def by (blast dest: completed_and_then)
  then have "nodes w3 side_path \<noteq> Some Dir" "\<not> locked w3 side_path"
    by (auto dest: completed_save)
  then have s: "nodes w side_path \<noteq> Some Dir" "\<not> locked w side_path"
    by (simp_all add: w3_def w2_def w1_def out_paths)
  from d b i s show ?thesis by (simp add: out_ready_def)
qed

section \<open>What a run leaves behind\<close>

lemma main_world:
  assumes "completed (main tb w)"
  shows "world_of (main tb w) =
     w\<lparr>nodes := (nodes w)(OUT \<mapsto> Dir,
                 banner_path \<mapsto> ImageFile ''PNG'' (banner_canvas tb w),
                 idle_path \<mapsto> ImageFile ''PNG'' (idle_canvas tb w),
                 side_path \<mapsto> ImageFile ''PNG'' (side_canvas tb w)),
        stdout := stdout w @ report\<rparr>"
  using main_ready [OF main_completed_ready [OF assms]] by (simp add: world_of_def)

lemma ready_completed: "out_ready w \<Longrightarrow> completed (main tb w)"
  by (simp add: main_ready completed_def)

lemma main_after:
  assumes "completed (main tb w)"
  shows "nodes (world_of (main tb w)) OUT = Some Dir"
    and "nodes (world_of (main tb w)) banner_path = Some (ImageFile ''PNG'' (banner_canvas tb w))"
    and "nodes (world_of (main tb w)) idle_path = Some (ImageFile ''PNG'' (idle_canvas tb w))"
    and "nodes (world_of (main tb w)) side_path = Some (ImageFile ''PNG'' (side_canvas tb w))"
    and "stdout (world_of (main tb w)) = stdout w @ report"
    and "locked (world_of (main tb w)) = locked w"
    and "font_err (world_of (main tb w)) = font_err w"
  by (simp_all add: main_world [OF assms] out_paths)

lemma split_report:
  "split_lines [] report =
     [[CHR 0xE2, CHR 0x9C, CHR 0x85] @ '' Banner 1080x90'',
      [CHR 0xE2, CHR 0x9C, CHR 0x85] @ '' Idle 1080x240'',
      [CHR 0xE2, CHR 0x9C, CHR 0x85] @ '' Side 1080x120'',
      [],
      ''All ads saved to '' @ OUT]"
  by (simp add: report_def OUT_def)

lemma canvas_shape:
  "im_size (banner_canvas tb w) = (1080, 90)"
  "im_size (idle_canvas tb w) = (1080, 240)"
  "im_size (side_canvas tb w) = (1080, 120)"
  "im_fill (banner_canvas tb w) = BG"
  "im_fill (idle_canvas tb w) = BG"
  "im_fill (side_canvas tb w) = BG"
  by (simp_all add: banner_canvas_def idle_canvas_def side_canvas_def Image_new_def Draw_def
      draw_gold_line_def draw_line_def center_text_def draw_text_def Let_def)

lemma canvas_counts:
  "length (text_ops (banner_canvas tb w)) = 2"
  "length (text_ops (idle_canvas tb w)) = 4"
  "length (text_ops (side_canvas tb w)) = 2"
  "length (rule_ops (banner_canvas tb w)) = 1"
  "length (rule_ops (idle_canvas tb w)) = 2"
  "length (rule_ops (side_canvas tb w)) = 2"
  by (simp_all add: text_ops_def rule_ops_def banner_canvas_def idle_canvas_def side_canvas_def
      Image_new_def Draw_def draw_gold_line_def draw_line_def center_text_def draw_text_def Let_def)


lemma canvas_centred:
  "\<forall>op \<in> set (im_ops (banner_canvas tb w)). centred_in tb (banner_canvas tb w) op"
  "\<forall>op \<in> set (im_ops (idle_canvas tb w)). centred_in tb (idle_canvas tb w) op"
  "\<forall>op \<in> set (im_ops (side_canvas tb w)). centred_in tb (side_canvas tb w) op"
  by (simp_all add: centred_in_def banner_canvas_def idle_canvas_def side_canvas_def
      Image_new_def Draw_def draw_gold_line_def draw_line_def center_text_def draw_text_def Let_def)

lemma block_outcome:
  "stdout (world_of (banner_block tb w)) = stdout w \<or>
   (stdout (world_of (banner_block tb w)) =
      stdout w @ [CHR 0xE2, CHR 0x9C, CHR 0x85] @ '' Banner 1080x90'' @ [CHR 0x0A] \<and>
    nodes (world_of (banner_block tb w)) banner_path =
      Some (ImageFile ''PNG'' (banner_canvas tb w)))"
  "stdout (world_of (idle_block tb w)) = stdout w \<or>
   (stdout (world_of (idle_block tb w)) =
      stdout w @ [CHR 0xE2, CHR 0x9C, CHR 0x85] @ '' Idle 1080x240'' @ [CHR 0x0A] \<and>
    nodes (world_of (idle_block tb w)) idle_path =
      Some (ImageFile ''PNG'' (idle_canvas tb w)))"
  "stdout (world_of (side_block tb w)) = stdout w \<or>
   (stdout (world_of (side_block tb w)) =
      stdout w @ [CHR 0xE2, CHR 0x9C, CHR 0x85] @ '' Side 1080x120'' @ [CHR 0x0A] \<and>
    nodes (world_of (side_block tb w)) side_path =
      Some (ImageFile ''PNG'' (side_canvas tb w)))"
  using save_cases [of "banner_canvas tb w" banner_path "''PNG''" w]
        save_cases [of "idle_canvas tb w" idle_path "''PNG''" w]
        save_cases [of "side_canvas tb w" side_path "''PNG''" w]
  by (auto simp add: banner_block_def idle_block_def side_block_def and_then_def print_def world_of_def)

lemma block_completed:
  "completed (banner_block tb w) \<Longrightarrow>
     stdout (world_of (banner_block tb w)) =
       stdout w @ [CHR 0xE2, CHR 0x9C, CHR 0x85] @ '' Banner 1080x90'' @ [CHR 0x0A] \<and>
     nodes (world_of (banner_block tb w)) banner_path =
       Some (ImageFile ''PNG'' (banner_canvas tb w))"
  "completed (idle_block tb w) \<Longrightarrow>
     stdout (world_of (idle_block tb w)) =
       stdout w @ [CHR 0xE2, CHR 0x9C, CHR 0x85] @ '' Idle 1080x240'' @ [CHR 0x0A] \<and>
     nodes (world_of (idle_block tb w)) idle_path =
       Some (ImageFile ''PNG'' (idle_canvas tb w))"
  "completed (side_block tb w) \<Longrightarrow>
     stdout (world_of (side_block tb w)) =
       stdout w @ [CHR 0xE2, CHR 0x9C, CHR 0x85] @ '' Side 1080x120'' @ [CHR 0x0A] \<and>
     nodes (world_of (side_block tb w)) side_path =
       Some (ImageFile ''PNG'' (side_canvas tb w))"
  using save_cases [of "banner_canvas tb w" banner_path "''PNG''" w]
        save_cases [of "idle_canvas tb w" idle_path "''PNG''" w]
        save_cases [of "side_canvas tb w" side_path "''PNG''" w]
  by (auto simp add: banner_block_def idle_block_def side_block_def and_then_def print_def
      world_of_def completed_def)

lemma sample_ready: "out_ready bare_world" "out_ready stale_world" "out_ready mac_world"
  by (simp_all add: out_ready_def bare_world_def stale_world_def mac_world_def out_paths)

lemma font_same_availability:
  assumes "\<forall>p sz idx. (font_err w1 p sz idx = None) = (font_err w2 p sz idx = None)"
  shows "font w1 sz b = font w2 sz b"
proof (cases "font_err w1 ''/System/Library/Fonts/Helvetica.ttc'' sz (if b then 1 else 0)")
  case None
  with assms have "font_err w2 ''/System/Library/Fonts/Helvetica.ttc'' sz (if b then 1 else 0) = None"
    by blast
  with None show ?thesis by (simp add: font_def truetype_def)
next
  case (Some e)
  with assms have "font_err w2 ''/System/Library/Fonts/Helvetica.ttc'' sz (if b then 1 else 0) \<noteq> None"
    by (metis option.distinct(1))
  then obtain e' where
    "font_err w2 ''/System/Library/Fonts/Helvetica.ttc'' sz (if b then 1 else 0) = Some e'"
    by blast
  with Some show ?thesis by (simp add: font_def truetype_def)
qed

lemma canvases_same_availability:
  assumes "\<forall>p sz idx. (font_err w1 p sz idx = None) = (font_err w2 p sz idx = None)"
  shows "banner_canvas tb w1 = banner_canvas tb w2"
    and "idle_canvas tb w1 = idle_canvas tb w2"
    and "side_canvas tb w1 = side_canvas tb w2"
  by (simp_all add: banner_canvas_def idle_canvas_def side_canvas_def
      font_same_availability [OF assms])

lemma rerun_ready:
  assumes "out_ready w"
  shows "out_ready ((world_of (main tb w))\<lparr>stdout := []\<rparr>)"
proof -
  have c: "completed (main tb w)" using assms by (rule ready_completed)
  from assms have l: "\<not> locked w banner_path" "\<not> locked w idle_path" "\<not> locked w side_path"
    by (simp_all add: out_ready_def)
  show ?thesis
    by (simp add: out_ready_def main_after [OF c] l)
qed

lemma rerun_nodes:
  assumes "out_ready w"
  shows "nodes (world_of (main tb ((world_of (main tb w))\<lparr>stdout := []\<rparr>))) =
         nodes (world_of (main tb w))"
proof -
  define w' where "w' = (world_of (main tb w))\<lparr>stdout := []\<rparr>"
  have c: "completed (main tb w)" using assms by (rule ready_completed)
  have c': "completed (main tb w')"
    unfolding w'_def using assms by (intro ready_completed rerun_ready)
  have f: "font_err w' = font_err w" by (simp add: w'_def main_after(7) [OF c])
  have n: "nodes w' = nodes (world_of (main tb w))" by (simp add: w'_def)
  have "nodes (world_of (main tb w')) =
          (nodes w')(OUT \<mapsto> Dir,
                 banner_path \<mapsto> ImageFile ''PNG'' (banner_canvas tb w),
                 idle_path \<mapsto> ImageFile ''PNG'' (idle_canvas tb w),
                 side_path \<mapsto> ImageFile ''PNG'' (side_canvas tb w))"
    by (simp add: main_world [OF c'] canvases_only_font_err [OF f])
  also have "\<dots> = nodes (world_of (main tb w))"
    unfolding n by (rule ext) (simp add: main_world [OF c])
  finally show ?thesis unfolding w'_def .
qed

lemma rerun_files:
  assumes "out_ready w"
  shows "completed (main tb2 ((world_of (main tb w))\<lparr>stdout := []\<rparr>))"
    and "nodes (world_of (main tb2 ((world_of (main tb w))\<lparr>stdout := []\<rparr>))) banner_path =
           Some (ImageFile ''PNG'' (banner_canvas tb2 w))"
    and "nodes (world_of (main tb2 ((world_of (main tb w))\<lparr>stdout := []\<rparr>))) idle_path =
           Some (ImageFile ''PNG'' (idle_canvas tb2 w))"
    and "nodes (world_of (main tb2 ((world_of (main tb w))\<lparr>stdout := []\<rparr>))) side_path =
           Some (ImageFile ''PNG'' (side_canvas tb2 w))"
proof -
  define w' where "w' = (world_of (main tb w))\<lparr>stdout := []\<rparr>"
  have c: "completed (main tb w)" using assms by (rule ready_completed)
  have c': "completed (main tb2 w')"
    unfolding w'_def using assms by (intro ready_completed rerun_ready)
  have f: "font_err w' = font_err w" by (simp add: w'_def main_after(7) [OF c])
  have b: "nodes (world_of (main tb2 w')) banner_path = Some (ImageFile ''PNG'' (banner_canvas tb2 w))"
    using main_after(2) [OF c'] by (simp only: canvases_only_font_err(1) [OF f])
  have i: "nodes (world_of (main tb2 w')) idle_path = Some (ImageFile ''PNG'' (idle_canvas tb2 w))"
    using main_after(3) [OF c'] by (simp only: canvases_only_font_err(2) [OF f])
  have s: "nodes (world_of (main tb2 w')) side_path = Some (ImageFile ''PNG'' (side_canvas tb2 w))"
    using main_after(4) [OF c'] by (simp only: canvases_only_font_err(3) [OF f])
  show "completed (main tb2 ((world_of (main tb w))\<lparr>stdout := []\<rparr>))"
    using c' by (simp only: w'_def)
  show "nodes (world_of (main tb2 ((world_of (main tb w))\<lparr>stdout := []\<rparr>))) banner_path =
           Some (ImageFile ''PNG'' (banner_canvas tb2 w))"
    using b by (simp only: w'_def)
  show "nodes (world_of (main tb2 ((world_of (main tb w))\<lparr>stdout := []\<rparr>))) idle_path =
           Some (ImageFile ''PNG'' (idle_canvas tb2 w))"
    using i by (simp only: w'_def)
  show "nodes (world_of (main tb2 ((world_of (main tb w))\<lparr>stdout := []\<rparr>))) side_path =
           Some (ImageFile ''PNG'' (side_canvas tb2 w))"
    using s by (simp only: w'_def)
qed

lemma sample_canvases_differ:
  "banner_canvas wide_bbox stale_world \<noteq> banner_canvas fixed_width_bbox stale_world"
proof -
  have "im_ops (banner_canvas wide_bbox stale_world) ! 1 \<noteq>
        im_ops (banner_canvas fixed_width_bbox stale_world) ! 1"
    by (simp add: banner_canvas_def Image_new_def Draw_def draw_gold_line_def draw_line_def
        center_text_def draw_text_def Let_def wide_bbox_def fixed_width_bbox_def
        font_def truetype_def stale_world_def load_default_def)
  then show ?thesis by auto
qed

section \<open>The helper routines\<close>

text \<open>
  Claim C2. For every text, font and surface width, \<open>center_text\<close> measures the text
  with the bounding box at the origin, takes the box's right edge minus its left edge as
  the text width, and makes one text call at the horizontal offset
  (surface width - text width) / 2 and the vertical offset it was given.
\<close>

theorem center_text_offset:
  assumes "textbbox (0, 0) txt fnt = (xl, yt, xr, yb)"
  shows "center_text textbbox draw y txt fnt fill img_w =
           draw\<lparr>im_ops := im_ops draw @
             [Text ((of_int img_w - of_int (xr - xl)) / 2, y) txt fnt fill]\<rparr>"
  using assms by (simp add: center_text_def draw_text_def)

theorem center_text_offset_witness:
  "fixed_width_bbox (0, 0) ''ABC'' (FreeTypeFont ''/System/Library/Fonts/Helvetica.ttc'' 13 0)
     = (0, 0, 19, 13) \<and>
   center_text fixed_width_bbox (Image_new ''RGB'' (1080, 90) BG) 20 ''ABC''
       (FreeTypeFont ''/System/Library/Fonts/Helvetica.ttc'' 13 0) GOLD 1080 =
     (Image_new ''RGB'' (1080, 90) BG)\<lparr>im_ops := im_ops (Image_new ''RGB'' (1080, 90) BG) @
        [Text (1061 / 2, 20) ''ABC'' (FreeTypeFont ''/System/Library/Fonts/Helvetica.ttc'' 13 0) GOLD]\<rparr>"
proof -
  have h: "fixed_width_bbox (0, 0) ''ABC'' (FreeTypeFont ''/System/Library/Fonts/Helvetica.ttc'' 13 0)
     = (0, 0, 19, 13)"
    by (simp add: fixed_width_bbox_def)
  show ?thesis
    using h center_text_offset [of fixed_width_bbox "''ABC''"
        "FreeTypeFont ''/System/Library/Fonts/Helvetica.ttc'' 13 0" 0 0 19 13
        "Image_new ''RGB'' (1080, 90) BG" 20 GOLD 1080]
    by simp
qed

text \<open>
  Claim C7. For every vertical offset, canvas width and margin, \<open>draw_gold_line\<close>
  makes one line call: from \<open>(margin, y)\<close> to \<open>(w - margin, y)\<close>, one pixel wide, in
  the colour (30, 30, 30).
\<close>

theorem draw_gold_line_rule:
  "draw_gold_line draw y w margin =
     draw\<lparr>im_ops := im_ops draw @ [Line [(margin, y), (w - margin, y)] (30, 30, 30) 1]\<rparr>"
  by (simp add: draw_gold_line_def draw_line_def DARK_LINE_def)

text \<open>
  Claim C8. When the text is wider than the surface, \<open>center_text\<close> still makes its one
  text call, with the text unchanged and at a negative horizontal offset: nothing is
  wrapped, clamped or refused.
\<close>

theorem center_text_overflow:
  assumes "textbbox (0, 0) txt fnt = (xl, yt, xr, yb)" and "img_w < xr - xl"
  shows "\<exists>x. center_text textbbox draw y txt fnt fill img_w =
               draw\<lparr>im_ops := im_ops draw @ [Text (x, y) txt fnt fill]\<rparr> \<and>
             x = (of_int img_w - of_int (xr - xl)) / 2 \<and> x < 0"
proof (intro exI conjI)
  show "center_text textbbox draw y txt fnt fill img_w =
          draw\<lparr>im_ops := im_ops draw @
            [Text ((of_int img_w - of_int (xr - xl)) / 2, y) txt fnt fill]\<rparr>"
    using assms(1) by (simp add: center_text_def draw_text_def)
  show "(of_int img_w - of_int (xr - xl)) / 2 = (of_int img_w - of_int (xr - xl)) / (2 :: rat)"
    by (rule refl)
  have "(of_int img_w :: rat) < of_int (xr - xl)"
    using assms(2) by (simp only: of_int_less_iff)
  then show "(of_int img_w - of_int (xr - xl)) / 2 < (0 :: rat)" by simp
qed

theorem center_text_overflow_witness:
  "fixed_width_bbox (0, 0) ''YOUR AD HERE'' DefaultFont = (0, 0, 66, 11) \<and> (60 :: int) < 66 - 0 \<and>
   (\<exists>x. center_text fixed_width_bbox (Image_new ''RGB'' (60, 90) BG) 20 ''YOUR AD HERE''
            DefaultFont GOLD 60 =
          (Image_new ''RGB'' (60, 90) BG)\<lparr>im_ops := im_ops (Image_new ''RGB'' (60, 90) BG) @
             [Text (x, 20) ''YOUR AD HERE'' DefaultFont GOLD]\<rparr> \<and>
        x = (of_int 60 - of_int (66 - 0)) / 2 \<and> x < 0)"
proof -
  have h: "fixed_width_bbox (0, 0) ''YOUR AD HERE'' DefaultFont = (0, 0, 66, 11)"
    by (simp add: fixed_width_bbox_def)
  have l: "(60 :: int) < 66 - 0" by simp
  show ?thesis
    using h l center_text_overflow [of fixed_width_bbox "''YOUR AD HERE''" DefaultFont
        0 0 66 11 60 "Image_new ''RGB'' (60, 90) BG" 20 GOLD]
    by blast
qed

section \<open>The three images\<close>

text \<open>
  Claim C1. Whatever the font loader returns, the banner canvas is 1080 by 90, the idle
  canvas 1080 by 240 and the side canvas 1080 by 120, and a run that completes leaves
  exactly these canvases, as PNG files, at the three output paths.
\<close>

theorem image_dimensions:
  "im_size (banner_canvas tb w) = (1080, 90) \<and>
   im_size (idle_canvas tb w) = (1080, 240) \<and>
   im_size (side_canvas tb w) = (1080, 120) \<and>
   (completed (main tb w) \<longrightarrow>
      nodes (world_of (main tb w)) banner_path = Some (ImageFile ''PNG'' (banner_canvas tb w)) \<and>
      nodes (world_of (main tb w)) idle_path = Some (ImageFile ''PNG'' (idle_canvas tb w)) \<and>
      nodes (world_of (main tb w)) side_path = Some (ImageFile ''PNG'' (side_canvas tb w)))"
  by (simp add: canvas_shape main_after)

theorem image_dimensions_witness:
  "completed (main fixed_width_bbox mac_world) \<and>
   im_size (banner_canvas fixed_width_bbox mac_world) = (1080, 90) \<and>
   im_size (idle_canvas fixed_width_bbox mac_world) = (1080, 240) \<and>
   im_size (side_canvas fixed_width_bbox mac_world) = (1080, 120) \<and>
   nodes (world_of (main fixed_width_bbox mac_world)) banner_path =
     Some (ImageFile ''PNG'' (banner_canvas fixed_width_bbox mac_world)) \<and>
   nodes (world_of (main fixed_width_bbox mac_world)) idle_path =
     Some (ImageFile ''PNG'' (idle_canvas fixed_width_bbox mac_world)) \<and>
   nodes (world_of (main fixed_width_bbox mac_world)) side_path =
     Some (ImageFile ''PNG'' (side_canvas fixed_width_bbox mac_world))"
proof -
  have c: "completed (main fixed_width_bbox mac_world)"
    by (rule ready_completed) (rule sample_ready)
  show ?thesis
    using c image_dimensions [of fixed_width_bbox mac_world] by blast
qed

text \<open>
  Claim C9. The three canvases have the same width 1080 and the same background
  (10, 10, 10), and every text call on a canvas is centred with respect to the width of
  that very canvas.
\<close>

theorem canvases_share_width:
  "\<forall>c \<in> {banner_canvas tb w, idle_canvas tb w, side_canvas tb w}.
     fst (im_size c) = 1080 \<and> im_fill c = (10, 10, 10) \<and>
     (\<forall>op \<in> set (im_ops c). centred_in tb c op)"
  using canvas_centred [of tb w] by (simp add: canvas_shape BG_def)

theorem canvases_share_width_witness:
  "fst (im_size (banner_canvas fixed_width_bbox mac_world)) = 1080 \<and>
   fst (im_size (idle_canvas fixed_width_bbox mac_world)) = 1080 \<and>
   fst (im_size (side_canvas fixed_width_bbox mac_world)) = 1080 \<and>
   im_fill (banner_canvas fixed_width_bbox mac_world) = (10, 10, 10) \<and>
   im_fill (idle_canvas fixed_width_bbox mac_world) = (10, 10, 10) \<and>
   im_fill (side_canvas fixed_width_bbox mac_world) = (10, 10, 10) \<and>
   list_all (centred_in fixed_width_bbox (banner_canvas fixed_width_bbox mac_world))
     (im_ops (banner_canvas fixed_width_bbox mac_world)) \<and>
   list_all (centred_in fixed_width_bbox (idle_canvas fixed_width_bbox mac_world))
     (im_ops (idle_canvas fixed_width_bbox mac_world)) \<and>
   list_all (centred_in fixed_width_bbox (side_canvas fixed_width_bbox mac_world))
     (im_ops (side_canvas fixed_width_bbox mac_world))"
  using canvases_share_width [of fixed_width_bbox mac_world]
  by (simp add: list_all_iff)

text \<open>
  Claim C4, as the script has it. The banner and the side block draw two centred text
  lines each and the idle block draws four; the banner has one rule, the other two have
  two. Every canvas has the solid background, and a block that completes has saved its
  canvas under its fixed file name and printed its confirmation line.
\<close>

theorem blocks_assemble:
  "length (text_ops (banner_canvas tb w)) = 2 \<and>
   length (text_ops (idle_canvas tb w)) = 4 \<and>
   length (text_ops (side_canvas tb w)) = 2 \<and>
   length (rule_ops (banner_canvas tb w)) = 1 \<and>
   length (rule_ops (idle_canvas tb w)) = 2 \<and>
   length (rule_ops (side_canvas tb w)) = 2 \<and>
   im_fill (banner_canvas tb w) = BG \<and>
   im_fill (idle_canvas tb w) = BG \<and>
   im_fill (side_canvas tb w) = BG \<and>
   (completed (banner_block tb w) \<longrightarrow>
      nodes (world_of (banner_block tb w)) (OUT @ ''/ad-banner-1080x90.png'') =
        Some (ImageFile ''PNG'' (banner_canvas tb w)) \<and>
      stdout (world_of (banner_block tb w)) =
        stdout w @ [CHR 0xE2, CHR 0x9C, CHR 0x85] @ '' Banner 1080x90'' @ [CHR 0x0A]) \<and>
   (completed (idle_block tb w) \<longrightarrow>
      nodes (world_of (idle_block tb w)) (OUT @ ''/ad-idle-1080x240.png'') =
        Some (ImageFile ''PNG'' (idle_canvas tb w)) \<and>
      stdout (world_of (idle_block tb w)) =
        stdout w @ [CHR 0xE2, CHR 0x9C, CHR 0x85] @ '' Idle 1080x240'' @ [CHR 0x0A]) \<and>
   (completed (side_block tb w) \<longrightarrow>
      nodes (world_of (side_block tb w)) (OUT @ ''/ad-side-1080x120.png'') =
        Some (ImageFile ''PNG'' (side_canvas tb w)) \<and>
      stdout (world_of (side_block tb w)) =
        stdout w @ [CHR 0xE2, CHR 0x9C, CHR 0x85] @ '' Side 1080x120'' @ [CHR 0x0A])"
proof -
  have p: "OUT @ ''/ad-banner-1080x90.png'' = banner_path"
    "OUT @ ''/ad-idle-1080x240.png'' = idle_path"
    "OUT @ ''/ad-side-1080x120.png'' = side_path"
    by (simp_all add: path_join_plain OUT_shape)
  show ?thesis
    unfolding p using block_completed [of tb w] by (simp add: canvas_counts canvas_shape)
qed

theorem blocks_assemble_witness:
  "completed (banner_block fixed_width_bbox mac_world) \<and>
   completed (idle_block fixed_width_bbox mac_world) \<and>
   completed (side_block fixed_width_bbox mac_world) \<and>
   length (text_ops (banner_canvas fixed_width_bbox mac_world)) = 2 \<and>
   length (text_ops (idle_canvas fixed_width_bbox mac_world)) = 4 \<and>
   length (text_ops (side_canvas fixed_width_bbox mac_world)) = 2 \<and>
   length (rule_ops (banner_canvas fixed_width_bbox mac_world)) = 1 \<and>
   length (rule_ops (idle_canvas fixed_width_bbox mac_world)) = 2 \<and>
   length (rule_ops (side_canvas fixed_width_bbox mac_world)) = 2 \<and>
   nodes (world_of (banner_block fixed_width_bbox mac_world)) (OUT @ ''/ad-banner-1080x90.png'') =
     Some (ImageFile ''PNG'' (banner_canvas fixed_width_bbox mac_world)) \<and>
   nodes (world_of (idle_block fixed_width_bbox mac_world)) (OUT @ ''/ad-idle-1080x240.png'') =
     Some (ImageFile ''PNG'' (idle_canvas fixed_width_bbox mac_world)) \<and>
   nodes (world_of (side_block fixed_width_bbox mac_world)) (OUT @ ''/ad-side-1080x120.png'') =
     Some (ImageFile ''PNG'' (side_canvas fixed_width_bbox mac_world)) \<and>
   stdout (world_of (idle_block fixed_width_bbox mac_world)) =
     [CHR 0xE2, CHR 0x9C, CHR 0x85] @ '' Idle 1080x240'' @ [CHR 0x0A]"
proof -
  have d: "nodes mac_world OUT = Some Dir" by (simp add: mac_world_def)
  have f: "nodes mac_world banner_path \<noteq> Some Dir" "\<not> locked mac_world banner_path"
    "nodes mac_world idle_path \<noteq> Some Dir" "\<not> locked mac_world idle_path"
    "nodes mac_world side_path \<noteq> Some Dir" "\<not> locked mac_world side_path"
    by (simp_all add: mac_world_def out_paths)
  have c: "completed (banner_block fixed_width_bbox mac_world)"
    "completed (idle_block fixed_width_bbox mac_world)"
    "completed (side_block fixed_width_bbox mac_world)"
    by (simp_all add: banner_block_ok idle_block_ok side_block_ok d f completed_def)
  have s: "stdout mac_world = []" by (simp add: mac_world_def)
  show ?thesis
    using c s blocks_assemble [of fixed_width_bbox mac_world] by simp
qed

text \<open>
  Claim C4 as it is written asks for two or three text lines in every block. The idle
  block draws four (the fourth is the small branding line).
\<close>

theorem idle_block_text_lines_counterexample:
  "\<not> (length (text_ops (idle_canvas fixed_width_bbox bare_world)) = 2 \<or>
      length (text_ops (idle_canvas fixed_width_bbox bare_world)) = 3)"
  by (simp add: canvas_counts)

section \<open>Fonts\<close>



section \<open>Standard output and the output directory\<close>

text \<open>
  Claim C5, as the script has it. A run that completes prints three confirmation lines,
  then an empty line, then the summary line, and nothing else: the summary is printed
  with a leading newline. Each block prints its confirmation after the save, so a block
  that printed has saved its image.
\<close>

theorem stdout_report:
  "(completed (main tb w) \<and> stdout w = [] \<longrightarrow>
      split_lines [] (stdout (world_of (main tb w))) =
        [[CHR 0xE2, CHR 0x9C, CHR 0x85] @ '' Banner 1080x90'',
         [CHR 0xE2, CHR 0x9C, CHR 0x85] @ '' Idle 1080x240'',
         [CHR 0xE2, CHR 0x9C, CHR 0x85] @ '' Side 1080x120'',
         [],
         ''All ads saved to '' @ OUT]) \<and>
   (stdout (world_of (banner_block tb w)) = stdout w \<or>
    (stdout (world_of (banner_block tb w)) =
       stdout w @ [CHR 0xE2, CHR 0x9C, CHR 0x85] @ '' Banner 1080x90'' @ [CHR 0x0A] \<and>
     nodes (world_of (banner_block tb w)) banner_path =
       Some (ImageFile ''PNG'' (banner_canvas tb w)))) \<and>
   (stdout (world_of (idle_block tb w)) = stdout w \<or>
    (stdout (world_of (idle_block tb w)) =
       stdout w @ [CHR 0xE2, CHR 0x9C, CHR 0x85] @ '' Idle 1080x240'' @ [CHR 0x0A] \<and>
     nodes (world_of (idle_block tb w)) idle_path =
       Some (ImageFile ''PNG'' (idle_canvas tb w)))) \<and>
   (stdout (world_of (side_block tb w)) = stdout w \<or>
    (stdout (world_of (side_block tb w)) =
       stdout w @ [CHR 0xE2, CHR 0x9C, CHR 0x85] @ '' Side 1080x120'' @ [CHR 0x0A] \<and>
     nodes (world_of (side_block tb w)) side_path =
       Some (ImageFile ''PNG'' (side_canvas tb w))))"
proof (intro conjI impI)
  assume a: "completed (main tb w) \<and> stdout w = []"
  then have "stdout (world_of (main tb w)) = report"
    by (simp add: main_after(5))
  then show "split_lines [] (stdout (world_of (main tb w))) =
        [[CHR 0xE2, CHR 0x9C, CHR 0x85] @ '' Banner 1080x90'',
         [CHR 0xE2, CHR 0x9C, CHR 0x85] @ '' Idle 1080x240'',
         [CHR 0xE2, CHR 0x9C, CHR 0x85] @ '' Side 1080x120'',
         [],
         ''All ads saved to '' @ OUT]"
    by (simp only: split_report)
qed (rule block_outcome)+

theorem stdout_report_witness:
  "completed (main fixed_width_bbox stale_world) \<and> stdout stale_world = [] \<and>
   split_lines [] (stdout (world_of (main fixed_width_bbox stale_world))) =
     [[CHR 0xE2, CHR 0x9C, CHR 0x85] @ '' Banner 1080x90'',
      [CHR 0xE2, CHR 0x9C, CHR 0x85] @ '' Idle 1080x240'',
      [CHR 0xE2, CHR 0x9C, CHR 0x85] @ '' Side 1080x120'',
      [],
      ''All ads saved to '' @ OUT]"
proof -
  have c: "completed (main fixed_width_bbox stale_world)"
    by (rule ready_completed) (rule sample_ready)
  have s: "stdout stale_world = []" by (simp add: stale_world_def)
  show ?thesis
    using c s stdout_report [of fixed_width_bbox stale_world] by blast
qed

text \<open>
  Claim C5 as it is written asks for four lines and nothing else. On an empty file system
  the run completes and standard output has five lines, the fourth of them empty.
\<close>

theorem stdout_lines_counterexample:
  "completed (main fixed_width_bbox bare_world) \<and>
   split_lines [] (stdout (world_of (main fixed_width_bbox bare_world))) =
     [[CHR 0xE2, CHR 0x9C, CHR 0x85] @ '' Banner 1080x90'',
      [CHR 0xE2, CHR 0x9C, CHR 0x85] @ '' Idle 1080x240'',
      [CHR 0xE2, CHR 0x9C, CHR 0x85] @ '' Side 1080x120'',
      [],
      ''All ads saved to '' @ OUT] \<and>
   length (split_lines [] (stdout (world_of (main fixed_width_bbox bare_world)))) \<noteq> 4"
proof -
  have c: "completed (main fixed_width_bbox bare_world)"
    by (rule ready_completed) (rule sample_ready)
  have "stdout bare_world = []" by (simp add: bare_world_def)
  with main_after(5) [OF c] have "stdout (world_of (main fixed_width_bbox bare_world)) = report"
    by simp
  with c show ?thesis by (simp add: split_report)
qed

text \<open>
  Claim C6. Where the file system lets the script through, the output directory is a
  directory after \<^verbatim>\<open>makedirs\<close>, created if it was absent and left as it was if it was
  there. The run completes and leaves its three canvases, as PNG files, at the three
  fixed paths, whatever was at those paths before. A second run from the world the first
  one left completes as well and writes the same three paths again: with the same text
  measurer it leaves the same files, and with another one the files hold the canvases
  of the second run.
\<close>

theorem output_directory_idempotent:
  assumes "out_ready w"
  shows "makedirs OUT True w = Inr (w\<lparr>nodes := (nodes w)(OUT \<mapsto> Dir)\<rparr>) \<and>
         (nodes w OUT = Some Dir \<longrightarrow> makedirs OUT True w = Inr w) \<and>
         completed (main tb w) \<and>
         nodes (world_of (main tb w)) OUT = Some Dir \<and>
         nodes (world_of (main tb w)) banner_path = Some (ImageFile ''PNG'' (banner_canvas tb w)) \<and>
         nodes (world_of (main tb w)) idle_path = Some (ImageFile ''PNG'' (idle_canvas tb w)) \<and>
         nodes (world_of (main tb w)) side_path = Some (ImageFile ''PNG'' (side_canvas tb w)) \<and>
         completed (main tb ((world_of (main tb w))\<lparr>stdout := []\<rparr>)) \<and>
         nodes (world_of (main tb ((world_of (main tb w))\<lparr>stdout := []\<rparr>))) =
           nodes (world_of (main tb w)) \<and>
         completed (main tb2 ((world_of (main tb w))\<lparr>stdout := []\<rparr>)) \<and>
         nodes (world_of (main tb2 ((world_of (main tb w))\<lparr>stdout := []\<rparr>))) OUT = Some Dir \<and>
         nodes (world_of (main tb2 ((world_of (main tb w))\<lparr>stdout := []\<rparr>))) banner_path =
           Some (ImageFile ''PNG'' (banner_canvas tb2 w)) \<and>
         nodes (world_of (main tb2 ((world_of (main tb w))\<lparr>stdout := []\<rparr>))) idle_path =
           Some (ImageFile ''PNG'' (idle_canvas tb2 w)) \<and>
         nodes (world_of (main tb2 ((world_of (main tb w))\<lparr>stdout := []\<rparr>))) side_path =
           Some (ImageFile ''PNG'' (side_canvas tb2 w))"
proof -
  have c: "completed (main tb w)" using assms by (rule ready_completed)
  then have "completed (makedirs OUT True w)"
    unfolding main_def by (blast dest: completed_and_then)
  then have m: "makedirs OUT True w = Inr (w\<lparr>nodes := (nodes w)(OUT \<mapsto> Dir)\<rparr>)"
    by (rule makedirs_world)
  have e: "nodes w OUT = Some Dir \<longrightarrow> makedirs OUT True w = Inr w"
    by (simp add: makedirs_OUT(1))
  note first = main_after(1-4) [OF c]
  note again = rerun_files [OF assms, of tb tb] rerun_nodes [OF assms, of tb]
  note other = rerun_files [OF assms, of tb2 tb]
  have d2: "nodes (world_of (main tb2 ((world_of (main tb w))\<lparr>stdout := []\<rparr>))) OUT = Some Dir"
    by (rule main_after(1) [OF other(1)])
  from m e c first again(1) again(5) other d2 show ?thesis
    by (intro conjI)
qed

theorem output_directory_idempotent_witness:
  "out_ready stale_world \<and> nodes stale_world OUT = Some Dir \<and>
   nodes stale_world banner_path = Some OtherFile \<and>
   nodes stale_world idle_path = None \<and>
   makedirs OUT True stale_world = Inr stale_world \<and>
   completed (main fixed_width_bbox stale_world) \<and>
   nodes (world_of (main fixed_width_bbox stale_world)) OUT = Some Dir \<and>
   nodes (world_of (main fixed_width_bbox stale_world)) banner_path =
     Some (ImageFile ''PNG'' (banner_canvas fixed_width_bbox stale_world)) \<and>
   nodes (world_of (main fixed_width_bbox stale_world)) idle_path =
     Some (ImageFile ''PNG'' (idle_canvas fixed_width_bbox stale_world)) \<and>
   nodes (world_of (main fixed_width_bbox stale_world)) side_path =
     Some (ImageFile ''PNG'' (side_canvas fixed_width_bbox stale_world)) \<and>
   completed (main fixed_width_bbox ((world_of (main fixed_width_bbox stale_world))\<lparr>stdout := []\<rparr>)) \<and>
   nodes (world_of (main fixed_width_bbox
            ((world_of (main fixed_width_bbox stale_world))\<lparr>stdout := []\<rparr>))) =
     nodes (world_of (main fixed_width_bbox stale_world)) \<and>
   completed (main wide_bbox ((world_of (main fixed_width_bbox stale_world))\<lparr>stdout := []\<rparr>)) \<and>
   nodes (world_of (main wide_bbox
            ((world_of (main fixed_width_bbox stale_world))\<lparr>stdout := []\<rparr>))) banner_path =
     Some (ImageFile ''PNG'' (banner_canvas wide_bbox stale_world)) \<and>
   nodes (world_of (main wide_bbox
            ((world_of (main fixed_width_bbox stale_world))\<lparr>stdout := []\<rparr>))) idle_path =
     Some (ImageFile ''PNG'' (idle_canvas wide_bbox stale_world)) \<and>
   nodes (world_of (main wide_bbox
            ((world_of (main fixed_width_bbox stale_world))\<lparr>stdout := []\<rparr>))) side_path =
     Some (ImageFile ''PNG'' (side_canvas wide_bbox stale_world)) \<and>
   banner_canvas wide_bbox stale_world \<noteq> banner_canvas fixed_width_bbox stale_world"
proof -
  have h: "out_ready stale_world" by (rule sample_ready)
  have d: "nodes stale_world OUT = Some Dir" by (simp add: stale_world_def out_paths)
  have o: "nodes stale_world banner_path = Some OtherFile" "nodes stale_world idle_path = None"
    by (simp_all add: stale_world_def out_paths)
  show ?thesis
    using h d o sample_canvases_differ
      output_directory_idempotent [OF h, of fixed_width_bbox wide_bbox]
    by blast
qed

section \<open>Determinism\<close>

text \<open>
  Claim C10. Two runs against the same imaging library in which the font loads for the
  same arguments build the same three canvases; when both complete, the three files and
  standard output are the same, whatever else differs between the two worlds (the
  exception raised by a failing load, the files that were there before).
\<close>

theorem deterministic_output:
  assumes "\<forall>p sz idx. (font_err w1 p sz idx = None) = (font_err w2 p sz idx = None)"
  shows "banner_canvas tb w1 = banner_canvas tb w2 \<and>
         idle_canvas tb w1 = idle_canvas tb w2 \<and>
         side_canvas tb w1 = side_canvas tb w2 \<and>
         (completed (main tb w1) \<and> completed (main tb w2) \<and> stdout w1 = [] \<and> stdout w2 = [] \<longrightarrow>
            nodes (world_of (main tb w1)) banner_path = nodes (world_of (main tb w2)) banner_path \<and>
            nodes (world_of (main tb w1)) idle_path = nodes (world_of (main tb w2)) idle_path \<and>
            nodes (world_of (main tb w1)) side_path = nodes (world_of (main tb w2)) side_path \<and>
            stdout (world_of (main tb w1)) = stdout (world_of (main tb w2)))"
  by (simp add: canvases_same_availability [OF assms] main_after)

theorem deterministic_output_witness:
  "(\<forall>p sz idx. (font_err bare_world p sz idx = None) = (font_err stale_world p sz idx = None)) \<and>
   completed (main fixed_width_bbox bare_world) \<and> completed (main fixed_width_bbox stale_world) \<and>
   stdout bare_world = [] \<and> stdout stale_world = [] \<and>
   banner_canvas fixed_width_bbox bare_world = banner_canvas fixed_width_bbox stale_world \<and>
   idle_canvas fixed_width_bbox bare_world = idle_canvas fixed_width_bbox stale_world \<and>
   side_canvas fixed_width_bbox bare_world = side_canvas fixed_width_bbox stale_world \<and>
   nodes (world_of (main fixed_width_bbox bare_world)) banner_path =
     nodes (world_of (main fixed_width_bbox stale_world)) banner_path \<and>
   nodes (world_of (main fixed_width_bbox bare_world)) idle_path =
     nodes (world_of (main fixed_width_bbox stale_world)) idle_path \<and>
   nodes (world_of (main fixed_width_bbox bare_world)) side_path =
     nodes (world_of (main fixed_width_bbox stale_world)) side_path \<and>
   stdout (world_of (main fixed_width_bbox bare_world)) =
     stdout (world_of (main fixed_width_bbox stale_world))"
proof -
  have a: "\<forall>p sz idx. (font_err bare_world p sz idx = None) = (font_err stale_world p sz idx = None)"
    by (simp add: bare_world_def stale_world_def)
  have c: "completed (main fixed_width_bbox bare_world)" "completed (main fixed_width_bbox stale_world)"
    by (rule ready_completed, rule sample_ready)+
  have s: "stdout bare_world = []" "stdout stale_world = []"
    by (simp_all add: bare_world_def stale_world_def)
  show ?thesis
    using a c s deterministic_output [OF a, of fixed_width_bbox] by blast
qed

end
